theory Spec2Isabelle
  imports Main "HOL-Library.Word"
begin

section \<open>The Telegram relay of \<^verbatim>\<open>main.go\<close>\<close>

text \<open>
  The program is one Go file: an authorization predicate, an attachment uploader, two
  HTTP handlers (\<^verbatim>\<open>/message\<close> and \<^verbatim>\<open>/send\<close>) and the loop over Telegram updates that
  fills a buffered channel. The embedding is sequential: a handler or one iteration of
  the update loop runs on a snapshot of the process state and returns the new state.
  Go strings are byte strings (\<^typ>\<open>string\<close>), \<^verbatim>\<open>int64\<close> is \<^typ>\<open>64 word\<close> read with
  \<^const>\<open>sint\<close>, and Go's \<^verbatim>\<open>int\<close> is taken at 64 bits.
\<close>

subsection \<open>Data\<close>

type_synonym int64 = "64 word"

text \<open>Go \<^verbatim>\<open>error\<close> values of the libraries; only their presence is ever inspected.\<close>

datatype error = Err string

text \<open>\<^verbatim>\<open>telegram.User\<close>, the fields the program reads.\<close>

record User =
  ID :: int64
  UserName :: string
  FirstName :: string
  LastName :: string

text \<open>\<^verbatim>\<open>type Message struct\<close> of \<^verbatim>\<open>main.go\<close>, fields in declaration order.\<close>

record Message =
  User :: string
  ChatID :: string
  MsgID :: string
  Text :: string
  VoiceURL :: string
  ImageURL :: string
  FileExt :: string

subsection \<open>Authorization\<close>

text \<open>
  \<^verbatim>\<open>allowedUserIDs\<close> and \<^verbatim>\<open>allowedUserNames\<close> are Go maps to \<^verbatim>\<open>struct{}\<close>, that is
  sets; they are filled once in \<^verbatim>\<open>main\<close> and only read afterwards, so they are
  parameters here. A \<^verbatim>\<open>*telegram.User\<close> may be \<^verbatim>\<open>nil\<close>.
\<close>

definition isAuthorized :: "int64 set \<Rightarrow> string set \<Rightarrow> User option \<Rightarrow> bool" where
  "isAuthorized allowedUserIDs allowedUserNames user =
     (case user of
        None \<Rightarrow> False
      | Some u \<Rightarrow>
          if ID u \<in> allowedUserIDs then True
          else if UserName u \<in> allowedUserNames then True
          else False)"

subsection \<open>The outside world\<close>

text \<open>
  Everything the program calls but does not define is a field of \<open>env\<close>: the UUID
  generator, the HTTP client, the workspace store, \<^verbatim>\<open>encoding/json\<close> and the Telegram
  client. A call that can differ from one invocation to the next receives the history of
  earlier calls, so no result is assumed to repeat.

  \<^verbatim>\<open>http.Get\<close> returns an error only when no response was obtained; a response with any
  status code, 404 included, comes back with a \<^verbatim>\<open>nil\<close> error. Reading \<^verbatim>\<open>resp.Body\<close> can
  fail on its own.
\<close>

record Response =
  StatusCode :: nat
  Body :: "error + string"

text \<open>\<^verbatim>\<open>telegram.MessageConfig\<close> as \<^verbatim>\<open>/send\<close> fills it; \<^verbatim>\<open>ReplyToMessageID\<close> is a Go \<^verbatim>\<open>int\<close>.\<close>

record MessageConfig =
  BaseChat_ChatID :: int64
  MessageConfig_Text :: string
  ReplyToMessageID :: int64

text \<open>\<^verbatim>\<open>telegram.File\<close>: the path of a file on Telegram's file server.\<close>

record File =
  FilePath :: string

record env =
  uuid_NewString :: "nat \<Rightarrow> string"
  http_Get :: "string list \<Rightarrow> string \<Rightarrow> error + Response"
  WriteFileInWorkspace :: "(string \<times> string) list \<Rightarrow> string \<Rightarrow> string \<Rightarrow> error option"
  json_Marshal :: "Message \<Rightarrow> error + string"
  json_Unmarshal :: "string \<Rightarrow> error + Message"
  bot_Send :: "MessageConfig list \<Rightarrow> MessageConfig \<Rightarrow> error option"
  bot_GetFile :: "string list \<Rightarrow> string \<Rightarrow> error + File"
  bot_Token :: string

text \<open>Entries of the structured log: level, message and the attributes modelled.\<close>

datatype level = LevelInfo | LevelWarn | LevelError

datatype attr = MessageAttr Message | ErrorAttr error | StringAttr string | IDAttr int64

datatype log_entry = Log level string "(string \<times> attr) list"

text \<open>
  What the process has done so far: how many UUIDs were drawn, the URLs fetched, the files
  written to the workspace, the file ids resolved, the messages handed to \<^verbatim>\<open>bot.Send\<close>,
  and the log. The channel \<^verbatim>\<open>messageQueue\<close> is kept apart, as a list with the oldest record
  first.
\<close>

record world =
  uuids :: nat
  fetched :: "string list"
  workspace :: "(string \<times> string) list"
  resolved :: "string list"
  sent :: "MessageConfig list"
  slog :: "log_entry list"

definition slog_Info :: "string \<Rightarrow> (string \<times> attr) list \<Rightarrow> world \<Rightarrow> world" where
  "slog_Info m as wd = wd\<lparr>slog := slog wd @ [Log LevelInfo m as]\<rparr>"

definition slog_Warn :: "string \<Rightarrow> (string \<times> attr) list \<Rightarrow> world \<Rightarrow> world" where
  "slog_Warn m as wd = wd\<lparr>slog := slog wd @ [Log LevelWarn m as]\<rparr>"

definition slog_Error :: "string \<Rightarrow> (string \<times> attr) list \<Rightarrow> world \<Rightarrow> world" where
  "slog_Error m as wd = wd\<lparr>slog := slog wd @ [Log LevelError m as]\<rparr>"

subsection \<open>The response writer\<close>

text \<open>
  \<^verbatim>\<open>net/http\<close> sends the status line once. The first \<^verbatim>\<open>Write\<close> sends 200 when no header
  was written before it; a \<^verbatim>\<open>WriteHeader\<close> after that is ignored. \<^verbatim>\<open>http.Error\<close> calls
  \<^verbatim>\<open>WriteHeader(code)\<close> and then prints the text and a newline. A handler that returns
  without writing answers 200 with an empty body.
\<close>

record ResponseWriter =
  header :: "nat option"
  writes :: "string list"

definition new_ResponseWriter :: ResponseWriter where
  "new_ResponseWriter = \<lparr>header = None, writes = []\<rparr>"

definition WriteHeader :: "nat \<Rightarrow> ResponseWriter \<Rightarrow> ResponseWriter" where
  "WriteHeader code w = (case header w of None \<Rightarrow> w\<lparr>header := Some code\<rparr> | Some c \<Rightarrow> w)"

definition Write :: "string \<Rightarrow> ResponseWriter \<Rightarrow> ResponseWriter" where
  "Write b w = (let w1 = WriteHeader 200 w in w1\<lparr>writes := writes w1 @ [b]\<rparr>)"

definition http_Error :: "ResponseWriter \<Rightarrow> string \<Rightarrow> nat \<Rightarrow> ResponseWriter" where
  "http_Error w err code = Write (err @ ''\<newline>'') (WriteHeader code w)"

definition status :: "ResponseWriter \<Rightarrow> nat" where
  "status w = (case header w of None \<Rightarrow> 200 | Some c \<Rightarrow> c)"

definition body :: "ResponseWriter \<Rightarrow> string" where
  "body w = concat (writes w)"

subsection \<open>\<^verbatim>\<open>uploadToWs\<close>\<close>

text \<open>
  The path is drawn first and returned on every exit. The status code of the response is
  never read.
\<close>

definition uploadToWs :: "env \<Rightarrow> world \<Rightarrow> string \<Rightarrow> string \<Rightarrow> (string \<times> error option) \<times> world" where
  "uploadToWs env wd url ext =
     (let path = uuid_NewString env (uuids wd) @ ext;
          wd1 = wd\<lparr>uuids := Suc (uuids wd)\<rparr>;
          wd2 = wd1\<lparr>fetched := fetched wd1 @ [url]\<rparr>
      in case http_Get env (fetched wd) url of
           Inl err \<Rightarrow> ((path, Some err), wd2)
         | Inr resp \<Rightarrow>
             (case Body resp of
                Inl err \<Rightarrow> ((path, Some err), wd2)
              | Inr b \<Rightarrow>
                  (case WriteFileInWorkspace env (workspace wd2) path b of
                     Some err \<Rightarrow> ((path, Some err), wd2)
                   | None \<Rightarrow> ((path, None), wd2\<lparr>workspace := workspace wd2 @ [(path, b)]\<rparr>))))"

subsection \<open>The \<^verbatim>\<open>/message\<close> handler\<close>

text \<open>
  \<^verbatim>\<open>fmt.Sprintf("%s", msg)\<close> on a struct of strings prints the fields in declaration
  order, separated by one space, between braces.
\<close>

definition Sprint_Message :: "Message \<Rightarrow> string" where
  "Sprint_Message msg =
     ''{'' @ User msg @ '' '' @ ChatID msg @ '' '' @ MsgID msg @ '' '' @ Text msg @ '' '' @
     VoiceURL msg @ '' '' @ ImageURL msg @ '' '' @ FileExt msg @ ''}''"

definition voice_Text :: "string \<Rightarrow> Message \<Rightarrow> string" where
  "voice_Text voiceID msg =
     ''<INFO>This message contains a voice file which you can find in the workspace at '' @
     voiceID @ ''<INFO>\<newline><MESSAGE>'' @ Sprint_Message msg @ ''</MESSAGE>''"

definition image_Text :: "string \<Rightarrow> Message \<Rightarrow> string" where
  "image_Text imageID msg =
     ''<INFO>This message contains an image file which you can find in the workspace at '' @
     imageID @ ''<INFO>\<newline><MESSAGE>'' @ Sprint_Message msg @ ''</MESSAGE>''"

text \<open>
  Lines 121 to 137: the voice branch, else the image branch, else the record is left as it
  is. \<open>Inl\<close> carries the text handed to \<^verbatim>\<open>http.Error\<close>.
\<close>

definition annotate :: "env \<Rightarrow> world \<Rightarrow> Message \<Rightarrow> (string + Message) \<times> world" where
  "annotate env wd msg =
     (if VoiceURL msg \<noteq> [] then
        (case uploadToWs env wd (VoiceURL msg) (FileExt msg) of
           ((voiceID, Some err), wd') \<Rightarrow>
             (Inl ''Failed to upload voice file'',
              slog_Error ''Failed to upload voice file'' [(''error'', ErrorAttr err)] wd')
         | ((voiceID, None), wd') \<Rightarrow> (Inr (msg\<lparr>Text := voice_Text voiceID msg\<rparr>), wd'))
      else if ImageURL msg \<noteq> [] then
        (case uploadToWs env wd (ImageURL msg) (FileExt msg) of
           ((imageID, Some err), wd') \<Rightarrow>
             (Inl ''Failed to upload image file'',
              slog_Error ''Failed to upload image file'' [(''error'', ErrorAttr err)] wd')
         | ((imageID, None), wd') \<Rightarrow> (Inr (msg\<lparr>Text := image_Text imageID msg\<rparr>), wd'))
      else (Inr msg, wd))"

text \<open>
  The loop \<^verbatim>\<open>for { select { case msg := <-messageQueue: ... default: ... } }\<close>: a receive
  that does not wait. Each \<^verbatim>\<open>return\<close> of the handler is one \<open>exit\<close>; the only one that
  is not an error is the \<^verbatim>\<open>default\<close> branch, taken when the channel is empty. The result
  holds what is left in the channel.
\<close>

datatype exit = NoMessages | UploadFailed | MarshalFailed

fun message_handler ::
  "env \<Rightarrow> Message list \<Rightarrow> world \<Rightarrow> ResponseWriter \<Rightarrow> exit \<times> Message list \<times> world \<times> ResponseWriter"
where
  "message_handler env [] wd w = (NoMessages, [], wd, Write ''No messages\<newline>'' w)"
| "message_handler env (msg # queue) wd w =
     (case annotate env (slog_Info ''Found Message'' [(''Message'', MessageAttr msg)] wd) msg of
        (Inl failure, wd') \<Rightarrow> (UploadFailed, queue, wd', http_Error w failure 500)
      | (Inr msg', wd') \<Rightarrow>
          (case json_Marshal env msg' of
             Inl err \<Rightarrow>
               (MarshalFailed, queue,
                slog_Error ''Failed to marshal message'' [(''error'', ErrorAttr err)] wd',
                http_Error w ''Failed to marshal message'' 500)
           | Inr msgBytes \<Rightarrow> message_handler env queue wd' (Write msgBytes w)))"

text \<open>
  \<^verbatim>\<open>messageQueue <- m\<close> on \<^verbatim>\<open>make(chan Message, 100)\<close>: the send completes while fewer
  than 100 records wait, and otherwise blocks (\<open>None\<close>) until a receive makes room.
\<close>

definition enqueue :: "Message list \<Rightarrow> Message \<Rightarrow> Message list option" where
  "enqueue queue m = (if length queue < 100 then Some (queue @ [m]) else None)"


subsection \<open>\<^verbatim>\<open>strconv\<close>, \<^verbatim>\<open>fmt\<close> and \<^verbatim>\<open>filepath\<close>\<close>

datatype NumError = ErrSyntax | ErrRange

definition is_digit :: "char \<Rightarrow> bool" where
  "is_digit c = (48 \<le> (of_char c :: int) \<and> (of_char c :: int) \<le> 57)"

text \<open>
  The digit loop of \<^verbatim>\<open>strconv.ParseUint\<close> in base 10: a byte that is no digit is a
  syntax error, and a value above \<open>maxVal\<close> is a range error as soon as it is reached.
\<close>

fun ParseUint_loop :: "int \<Rightarrow> int \<Rightarrow> string \<Rightarrow> NumError + int" where
  "ParseUint_loop maxVal n [] = Inr n"
| "ParseUint_loop maxVal n (c # cs) =
     (if is_digit c then
        (let n1 = n * 10 + (of_char c - 48)
         in if maxVal < n1 then Inl ErrRange else ParseUint_loop maxVal n1 cs)
      else Inl ErrSyntax)"

definition ParseUint :: "string \<Rightarrow> nat \<Rightarrow> NumError + int" where
  "ParseUint s bitSize = (if s = [] then Inl ErrSyntax else ParseUint_loop (2 ^ bitSize - 1) 0 s)"

text \<open>
  \<^verbatim>\<open>strconv.ParseInt(s, 10, bitSize)\<close>: an optional sign, then \<^verbatim>\<open>ParseUint\<close>, then the
  range of the signed type.
\<close>

definition ParseInt :: "string \<Rightarrow> nat \<Rightarrow> NumError + int" where
  "ParseInt s bitSize =
     (if s = [] then Inl ErrSyntax
      else
        let neg = (hd s = CHR ''-'');
            s1 = (if hd s = CHR ''+'' \<or> hd s = CHR ''-'' then tl s else s);
            cutoff = (2::int) ^ (bitSize - 1)
        in case ParseUint s1 bitSize of
             Inl ErrSyntax \<Rightarrow> Inl ErrSyntax
           | Inl ErrRange \<Rightarrow> Inl ErrRange
           | Inr un \<Rightarrow>
               if \<not> neg \<and> cutoff \<le> un then Inl ErrRange
               else if neg \<and> cutoff < un then Inl ErrRange
               else Inr (if neg then - un else un))"

text \<open>\<^verbatim>\<open>strconv.Atoi\<close> is \<^verbatim>\<open>ParseInt\<close> at the size of \<^verbatim>\<open>int\<close>.\<close>

definition Atoi :: "string \<Rightarrow> NumError + int" where
  "Atoi s = ParseInt s 64"

text \<open>\<^verbatim>\<open>fmt.Sprintf("%d", n)\<close>: decimal digits, with a minus sign below zero.\<close>

fun decimal :: "nat \<Rightarrow> string" where
  "decimal n =
     (if n < 10 then [char_of (48 + n)] else decimal (n div 10) @ [char_of (48 + n mod 10)])"

declare decimal.simps [simp del]

definition Sprint_d :: "int \<Rightarrow> string" where
  "Sprint_d i = (if i < 0 then CHR ''-'' # decimal (nat (- i)) else decimal (nat i))"

text \<open>
  \<^verbatim>\<open>filepath.Ext\<close>: walk back from the end of the path until a separator; the first dot
  met starts the extension. The first argument is the part of the path not yet visited,
  reversed; the second is the suffix already passed.
\<close>

fun Ext_scan :: "string \<Rightarrow> string \<Rightarrow> string" where
  "Ext_scan [] suffix = []"
| "Ext_scan (c # front) suffix =
     (if c = CHR ''/'' then []
      else if c = CHR ''.'' then c # suffix
      else Ext_scan front (c # suffix))"

definition filepath_Ext :: "string \<Rightarrow> string" where
  "filepath_Ext path = Ext_scan (rev path) []"

text \<open>
  \<^verbatim>\<open>File.Link(token)\<close> of the Telegram client formats the file endpoint
  \<^verbatim>\<open>https://api.telegram.org/file/bot%s/%s\<close> with the token and the file path.
\<close>

definition Link :: "File \<Rightarrow> string \<Rightarrow> string" where
  "Link f token = ''https://api.telegram.org/file/bot'' @ token @ ''/'' @ FilePath f"

subsection \<open>\<^verbatim>\<open>json.Marshal\<close> on a \<^verbatim>\<open>Message\<close>\<close>

text \<open>
  The handlers take \<^verbatim>\<open>json.Marshal\<close> from \<open>env\<close>. The encoder below is the one used
  in the concrete runs: field names and \<^verbatim>\<open>omitempty\<close> from the struct tags, strings
  quoted with the escapes of \<^verbatim>\<open>encoding/json\<close> (the quote and backslash, control
  bytes, and \<^verbatim>\<open><\<close>, \<^verbatim>\<open>>\<close>, \<^verbatim>\<open>&\<close> as \<^verbatim>\<open>\u00XX\<close>). Bytes above 0x7f are copied, as Go
  does for well-formed UTF-8 apart from U+2028 and U+2029.
\<close>

definition hex :: "nat \<Rightarrow> char" where
  "hex n = ''0123456789abcdef'' ! (n mod 16)"

definition json_char :: "char \<Rightarrow> string" where
  "json_char c =
     (let b = (of_char c :: nat) in
      if c = CHR 0x22 \<or> c = CHR 0x5C then [CHR 0x5C, c]
      else if b = 8 then [CHR 0x5C, CHR ''b'']
      else if b = 12 then [CHR 0x5C, CHR ''f'']
      else if b = 10 then [CHR 0x5C, CHR ''n'']
      else if b = 13 then [CHR 0x5C, CHR ''r'']
      else if b = 9 then [CHR 0x5C, CHR ''t'']
      else if b < 32 \<or> c = CHR ''<'' \<or> c = CHR ''>'' \<or> c = CHR ''&'' then
        [CHR 0x5C, CHR ''u'', CHR ''0'', CHR ''0'', hex (b div 16), hex b]
      else [c])"

definition json_string :: "string \<Rightarrow> string" where
  "json_string s = [CHR 0x22] @ concat (map json_char s) @ [CHR 0x22]"

definition json_field :: "string \<Rightarrow> string \<Rightarrow> string list" where
  "json_field name v = [json_string name @ '':'' @ json_string v]"

definition omitempty :: "string \<Rightarrow> string \<Rightarrow> string list" where
  "omitempty name v = (if v = [] then [] else json_field name v)"

fun join :: "string list \<Rightarrow> string" where
  "join [] = []"
| "join [x] = x"
| "join (x # y # zs) = x @ '','' @ join (y # zs)"

definition Marshal_Message :: "Message \<Rightarrow> string" where
  "Marshal_Message msg =
     ''{'' @ join (omitempty ''user'' (User msg) @ json_field ''chatId'' (ChatID msg) @
                  omitempty ''msgId'' (MsgID msg) @ json_field ''text'' (Text msg) @
                  omitempty ''voiceURL'' (VoiceURL msg) @ omitempty ''imageURL'' (ImageURL msg) @
                  omitempty ''fileExt'' (FileExt msg)) @ ''}''"

subsection \<open>The \<^verbatim>\<open>/send\<close> handler\<close>

text \<open>\<^verbatim>\<open>telegram.NewMessage\<close> leaves \<^verbatim>\<open>ReplyToMessageID\<close> at zero, which is no reply.\<close>

definition NewMessage :: "int64 \<Rightarrow> string \<Rightarrow> MessageConfig" where
  "NewMessage chatID text = \<lparr>BaseChat_ChatID = chatID, MessageConfig_Text = text, ReplyToMessageID = 0\<rparr>"

text \<open>The call \<^verbatim>\<open>bot.Send(msg)\<close> and what the handler does with its error.\<close>

definition Send :: "env \<Rightarrow> world \<Rightarrow> MessageConfig \<Rightarrow> ResponseWriter \<Rightarrow> world \<times> ResponseWriter" where
  "Send env wd msg w =
     (let wd' = wd\<lparr>sent := sent wd @ [msg]\<rparr>
      in case bot_Send env (sent wd) msg of
           Some err \<Rightarrow> (wd', http_Error w ''Failed to send Message'' 500)
         | None \<Rightarrow> (wd', w))"

text \<open>The argument \<open>r_Body\<close> is the outcome of \<^verbatim>\<open>io.ReadAll(r.Body)\<close>.\<close>

definition send_handler :: "env \<Rightarrow> world \<Rightarrow> error + string \<Rightarrow> ResponseWriter \<Rightarrow> world \<times> ResponseWriter" where
  "send_handler env wd r_Body w =
     (case r_Body of
        Inl err \<Rightarrow>
          (slog_Error ''Failed to read request body'' [(''error'', ErrorAttr err)] wd,
           http_Error w ''Failed to read request body'' 400)
      | Inr bodyBytes \<Rightarrow>
          (case json_Unmarshal env bodyBytes of
             Inl err \<Rightarrow>
               (slog_Error ''Failed to parse request''
                  [(''error'', ErrorAttr err), (''body'', StringAttr bodyBytes)] wd,
                http_Error w ''Failed to parse request'' 400)
           | Inr req \<Rightarrow>
               (case ParseInt (ChatID req) 64 of
                  Inl err \<Rightarrow>
                    (slog_Error ''Invalid chat ID'' [(''ChatID'', StringAttr (ChatID req))] wd,
                     http_Error w ''Invalid chat ID'' 400)
                | Inr chatID \<Rightarrow>
                    (let msg = NewMessage (word_of_int chatID) (Text req) in
                     if MsgID req \<noteq> [] then
                       (case Atoi (MsgID req) of
                          Inl err \<Rightarrow>
                            (slog_Error ''Invalid Message ID'' [(''MsgID'', StringAttr (MsgID req))] wd,
                             http_Error w ''Invalid Message ID'' 400)
                        | Inr msgID \<Rightarrow>
                            Send env wd (msg\<lparr>ReplyToMessageID := word_of_int msgID\<rparr>) w)
                     else Send env wd msg w))))"

subsection \<open>The update loop\<close>

text \<open>
  The parts of \<^verbatim>\<open>telegram.Update\<close> and \<^verbatim>\<open>telegram.Message\<close> the loop reads. Pointers
  and slices that may be \<^verbatim>\<open>nil\<close> are options. \<^verbatim>\<open>update.SentFrom()\<close> is
  \<^verbatim>\<open>update.Message.From\<close> once \<^verbatim>\<open>update.Message\<close> is known not to be \<^verbatim>\<open>nil\<close>. Every
  message of the Bot API has a chat, so \<^verbatim>\<open>update.Message.Chat.ID\<close> is the field \<open>Chat_ID\<close>.
  The caption of a photo is a field of its own and is not read.
\<close>

record Voice =
  Voice_FileID :: string

record PhotoSize =
  PhotoSize_FileID :: string

record tg_Message =
  From :: "User option"
  Chat_ID :: int64
  MessageID :: int64
  Message_Text :: string
  Message_Voice :: "Voice option"
  Message_Photo :: "PhotoSize list option"

record Update =
  Update_Message :: "tg_Message option"

definition GetFile :: "env \<Rightarrow> world \<Rightarrow> string \<Rightarrow> (error + File) \<times> world" where
  "GetFile env wd fileID = (bot_GetFile env (resolved wd) fileID, wd\<lparr>resolved := resolved wd @ [fileID]\<rparr>)"

text \<open>
  One iteration ends in one of these ways: the update is skipped (no message, sender not
  allowed, file lookup failed), the record is sent to the channel, the send blocks on a
  full channel, or the iteration panics. The panics are the read of \<^verbatim>\<open>user.ID\<close> for the
  warning when \<^verbatim>\<open>user\<close> is \<^verbatim>\<open>nil\<close>, and \<^verbatim>\<open>Photo[0]\<close> on an empty slice. (In \<open>listen\<close>
  the second \<open>None\<close> case is never taken: \<open>isAuthorized\<close> is false on \<^verbatim>\<open>nil\<close>.)
\<close>

datatype step = NoMessage | Unauthorized | GetFileFailed | Enqueued | Blocked | Panic

text \<open>Lines 235 to 245.\<close>

definition resolve_Voice :: "env \<Rightarrow> world \<Rightarrow> tg_Message \<Rightarrow> Message \<Rightarrow> (step + Message) \<times> world" where
  "resolve_Voice env wd tm m =
     (case Message_Voice tm of
        None \<Rightarrow> (Inr m, wd)
      | Some v \<Rightarrow>
          (case GetFile env (slog_Info ''Received a Voice Message'' [] wd) (Voice_FileID v) of
             (Inl err, wd') \<Rightarrow>
               (Inl GetFileFailed, slog_Error ''Failed to get Voice URL'' [(''error'', ErrorAttr err)] wd')
           | (Inr f, wd') \<Rightarrow>
               (Inr (m\<lparr>VoiceURL := Link f (bot_Token env), FileExt := filepath_Ext (FilePath f)\<rparr>), wd')))"

text \<open>Lines 247 to 257.\<close>

definition resolve_Photo :: "env \<Rightarrow> world \<Rightarrow> tg_Message \<Rightarrow> Message \<Rightarrow> (step + Message) \<times> world" where
  "resolve_Photo env wd tm m =
     (case Message_Photo tm of
        None \<Rightarrow> (Inr m, wd)
      | Some photo \<Rightarrow>
          (case photo of
             [] \<Rightarrow> (Inl Panic, slog_Info ''Received a Photo Message'' [] wd)
           | p # ps \<Rightarrow>
               (case GetFile env (slog_Info ''Received a Photo Message'' [] wd) (PhotoSize_FileID p) of
                  (Inl err, wd') \<Rightarrow>
                    (Inl GetFileFailed,
                     slog_Error ''Failed to get Photo URL'' [(''error'', ErrorAttr err)] wd')
                | (Inr f, wd') \<Rightarrow>
                    (Inr (m\<lparr>ImageURL := Link f (bot_Token env), FileExt := filepath_Ext (FilePath f)\<rparr>),
                     wd'))))"

text \<open>Lines 228 to 233: the record as first built.\<close>

definition new_record :: "User \<Rightarrow> tg_Message \<Rightarrow> Message" where
  "new_record user tm =
     \<lparr>User = FirstName user @ '' '' @ LastName user @ '' ('' @ UserName user @ '')'',
      ChatID = Sprint_d (sint (Chat_ID tm)),
      MsgID = Sprint_d (sint (MessageID tm)),
      Text = Message_Text tm,
      VoiceURL = [], ImageURL = [], FileExt = []\<rparr>"

text \<open>The body of \<^verbatim>\<open>for update := range updates\<close>.\<close>

definition listen ::
  "int64 set \<Rightarrow> string set \<Rightarrow> env \<Rightarrow> Message list \<Rightarrow> world \<Rightarrow> Update \<Rightarrow> step \<times> Message list \<times> world"
where
  "listen allowedUserIDs allowedUserNames env queue wd update =
     (case Update_Message update of
        None \<Rightarrow> (NoMessage, queue, wd)
      | Some tm \<Rightarrow>
          if \<not> isAuthorized allowedUserIDs allowedUserNames (From tm) then
            (case From tm of
               None \<Rightarrow> (Panic, queue, wd)
             | Some user \<Rightarrow>
                 (Unauthorized, queue,
                  slog_Warn ''Unauthorized user''
                    [(''userID'', IDAttr (ID user)), (''userName'', StringAttr (UserName user))] wd))
          else
            (case From tm of
               None \<Rightarrow> (Panic, queue, wd)
             | Some user \<Rightarrow>
                 (let wd1 = slog_Info ''Received a Message''
                              [(''Message'', StringAttr (Message_Text tm))] wd
                  in case resolve_Voice env wd1 tm (new_record user tm) of
                       (Inl stop, wd2) \<Rightarrow> (stop, queue, wd2)
                     | (Inr m, wd2) \<Rightarrow>
                         (case resolve_Photo env wd2 tm m of
                            (Inl stop, wd3) \<Rightarrow> (stop, queue, wd3)
                          | (Inr m', wd3) \<Rightarrow>
                              (case enqueue queue m' of
                                 None \<Rightarrow> (Blocked, queue, wd3)
                               | Some queue' \<Rightarrow> (Enqueued, queue', wd3))))))"

subsection \<open>Observations and a concrete run\<close>



text \<open>
  A small world for concrete runs. Two URLs fail: one has no server behind it, the other
  is answered with 404. The JSON decoder is given on the request bodies that are used.
\<close>

definition world0 :: world where
  "world0 = \<lparr>uuids = 0, fetched = [], workspace = [], resolved = [], sent = [], slog = []\<rparr>"

definition example_Unmarshal :: "string \<Rightarrow> error + Message" where
  \<open>example_Unmarshal b =
     (if b = ''{"chatId":"123","text":"hi"}''
      then Inr \<lparr>User = [], ChatID = ''123'', MsgID = [], Text = ''hi'',
                VoiceURL = [], ImageURL = [], FileExt = []\<rparr>
      else if b = ''{"chatId":"abc","text":"hi"}''
      then Inr \<lparr>User = [], ChatID = ''abc'', MsgID = [], Text = ''hi'',
                VoiceURL = [], ImageURL = [], FileExt = []\<rparr>
      else if b = ''{"chatId":"123","text":"hi","msgId":"7"}''
      then Inr \<lparr>User = [], ChatID = ''123'', MsgID = ''7'', Text = ''hi'',
                VoiceURL = [], ImageURL = [], FileExt = []\<rparr>
      else if b = ''{"chatId":"123","text":"hi","msgId":"x"}''
      then Inr \<lparr>User = [], ChatID = ''123'', MsgID = ''x'', Text = ''hi'',
                VoiceURL = [], ImageURL = [], FileExt = []\<rparr>
      else Inl (Err ''invalid character''))\<close>

definition example_env :: env where
  "example_env =
     \<lparr>uuid_NewString = (\<lambda>n. ''uuid'' @ decimal n),
      http_Get = (\<lambda>history url.
        if url = ''https://down.example/v.oga'' then Inl (Err ''connection refused'')
        else if url = ''https://files.example/gone.oga''
        then Inr \<lparr>StatusCode = 404, Body = Inr ''Not Found''\<rparr>
        else Inr \<lparr>StatusCode = 200, Body = Inr ''DATA''\<rparr>),
      WriteFileInWorkspace = (\<lambda>files path b. None),
      json_Marshal = (\<lambda>msg. Inr (Marshal_Message msg)),
      json_Unmarshal = example_Unmarshal,
      bot_Send = (\<lambda>history msg. None),
      bot_GetFile = (\<lambda>history fileID. Inr \<lparr>FilePath = fileID\<rparr>),
      bot_Token = ''TOKEN''\<rparr>"

definition plain_msg :: Message where
  "plain_msg = \<lparr>User = ''Ann Lee (ann)'', ChatID = ''42'', MsgID = ''7'', Text = ''hello'',
                 VoiceURL = [], ImageURL = [], FileExt = []\<rparr>"

definition voice_msg :: Message where
  "voice_msg = \<lparr>User = ''Ann Lee (ann)'', ChatID = ''42'', MsgID = ''8'', Text = ''listen'',
                 VoiceURL = ''https://files.example/v.oga'', ImageURL = [], FileExt = ''.oga''\<rparr>"

definition down_msg :: Message where
  "down_msg = \<lparr>User = ''Ann Lee (ann)'', ChatID = ''42'', MsgID = ''9'', Text = [],
                VoiceURL = ''https://down.example/v.oga'', ImageURL = [], FileExt = ''.oga''\<rparr>"

definition ann :: User where
  "ann = \<lparr>ID = 1001, UserName = ''ann'', FirstName = ''Ann'', LastName = ''Lee''\<rparr>"

text \<open>A message with neither text nor voice nor photo, as a sticker or a location is.\<close>

definition sticker_update :: Update where
  "sticker_update =
     \<lparr>Update_Message = Some \<lparr>From = Some ann, Chat_ID = 42, MessageID = 7, Message_Text = [],
                               Message_Voice = None, Message_Photo = None\<rparr>\<rparr>"



section \<open>Properties\<close>

text \<open>
  C2. \<^verbatim>\<open>isAuthorized\<close> is false for an absent sender; for a present sender it is true
  exactly when the numeric ID is in the allowed-ID set or the user name is in the
  allowed-name set, so either credential suffices and a sender in neither set is
  refused. The function only reads its arguments and the two sets and returns a
  boolean: it has no state to change.
\<close>

theorem isAuthorized_spec:
  "isAuthorized ids names None = False \<and>
   isAuthorized ids names (Some u) = (ID u \<in> ids \<or> UserName u \<in> names)"
  by (simp add: isAuthorized_def)

subsection \<open>Facts about the upload and the drain\<close>

lemma uploadToWs_slog: "uploadToWs env wd url ext = (r, wd') \<Longrightarrow> slog wd' = slog wd"
  by (auto simp: uploadToWs_def Let_def split: sum.splits option.splits)

lemma uploadToWs_path:
  "uploadToWs env wd url ext = ((p, e), wd') \<Longrightarrow> p = uuid_NewString env (uuids wd) @ ext"
  by (auto simp: uploadToWs_def Let_def split: sum.splits option.splits)


lemma annotate_Inr:
  "annotate env wd msg = (Inr msg', wd') \<Longrightarrow>
     slog wd' = slog wd \<and>
     msg' = msg\<lparr>Text :=
       (if VoiceURL msg \<noteq> [] then voice_Text (uuid_NewString env (uuids wd) @ FileExt msg) msg
        else if ImageURL msg \<noteq> [] then image_Text (uuid_NewString env (uuids wd) @ FileExt msg) msg
        else Text msg)\<rparr>"
  by (auto simp: annotate_def split: if_splits prod.splits option.splits
      dest: uploadToWs_slog uploadToWs_path)




lemma Write_writes: "writes (Write b w) = writes w @ [b]"
  by (simp add: Write_def WriteHeader_def Let_def split: option.splits)

lemma Write_header: "header (Write b w) = Some (case header w of None \<Rightarrow> 200 | Some c \<Rightarrow> c)"
  by (simp add: Write_def WriteHeader_def Let_def split: option.splits)


lemma handler_NoMessages:
  "message_handler env queue wd w = (NoMessages, queue', wd', w') \<Longrightarrow>
     queue' = [] \<and>
     header w' = Some (case header w of None \<Rightarrow> 200 | Some c \<Rightarrow> c) \<and>
     (\<exists>bs. writes w' = writes w @ bs @ [''No messages\<newline>''] \<and>
        list_all2 (\<lambda>m b. \<exists>k. json_Marshal env (m\<lparr>Text :=
            (if VoiceURL m \<noteq> [] then voice_Text (uuid_NewString env k @ FileExt m) m
             else if ImageURL m \<noteq> [] then image_Text (uuid_NewString env k @ FileExt m) m
             else Text m)\<rparr>) = Inr b) queue bs)"
  (is "_ \<Longrightarrow> _ \<and> _ \<and> (\<exists>bs. _ \<and> list_all2 ?P queue bs)")
proof (induction queue arbitrary: wd w)
  case Nil
  then show ?case by (auto simp: Write_writes Write_header)
next
  case (Cons msg queue)
  let ?wd0 = "slog_Info ''Found Message'' [(''Message'', MessageAttr msg)] wd"
  from Cons.prems obtain msg' wd1 b where
    a: "annotate env ?wd0 msg = (Inr msg', wd1)" and
    m: "json_Marshal env msg' = Inr b" and
    r: "message_handler env queue wd1 (Write b w) = (NoMessages, queue', wd', w')"
    by (auto split: prod.splits sum.splits)
  from annotate_Inr[OF a] m have p: "?P msg b"
    by auto
  from Cons.IH[OF r] obtain bs where
    q: "queue' = []" and
    h: "header w' = Some (case header (Write b w) of None \<Rightarrow> 200 | Some c \<Rightarrow> c)" and
    ws: "writes w' = writes (Write b w) @ bs @ [''No messages\<newline>'']" and
    la: "list_all2 ?P queue bs"
    by blast
  have "writes w' = writes w @ (b # bs) @ [''No messages\<newline>'']"
    using ws by (simp add: Write_writes)
  moreover have "list_all2 ?P (msg # queue) (b # bs)"
    using la p by simp
  moreover have "header w' = Some (case header w of None \<Rightarrow> 200 | Some c \<Rightarrow> c)"
    using h by (simp add: Write_header split: option.splits)
  ultimately show ?case using q by blast
qed


lemma uploadToWs_workspace:
  "uploadToWs env wd url ext = ((p, None), wd') \<Longrightarrow> \<exists>b. workspace wd' = workspace wd @ [(p, b)]"
  by (auto simp: uploadToWs_def Let_def split: sum.splits option.splits)

text \<open>
  What \<^verbatim>\<open>uploadToWs\<close> does report: no response, a body that cannot be read, a write
  that the workspace refuses.
\<close>

lemma uploadToWs_reports:
  "(http_Get env (fetched wd) url = Inl err \<longrightarrow> snd (fst (uploadToWs env wd url ext)) = Some err) \<and>
   (http_Get env (fetched wd) url = Inr resp \<and> Body resp = Inl err \<longrightarrow>
      snd (fst (uploadToWs env wd url ext)) = Some err) \<and>
   (http_Get env (fetched wd) url = Inr resp \<and> Body resp = Inr b \<and>
    WriteFileInWorkspace env (workspace wd) (uuid_NewString env (uuids wd) @ ext) b = Some err \<longrightarrow>
      snd (fst (uploadToWs env wd url ext)) = Some err)"
  by (simp add: uploadToWs_def Let_def)

subsection \<open>Facts about \<^verbatim>\<open>/send\<close> and the update loop\<close>

lemma status_http_Error: "status (http_Error new_ResponseWriter text code) = code"
  by (simp add: status_def http_Error_def Write_def WriteHeader_def new_ResponseWriter_def Let_def)

lemma status_new: "status new_ResponseWriter = 200 \<and> writes new_ResponseWriter = []"
  by (simp add: status_def new_ResponseWriter_def)

lemma sent_slog_Error: "sent (slog_Error text as wd) = sent wd"
  by (simp add: slog_Error_def)

lemma Send_result:
  "Send env wd msg new_ResponseWriter = (wd', w') \<Longrightarrow>
     sent wd' = sent wd @ [msg] \<and>
     (case bot_Send env (sent wd) msg of
        Some err \<Rightarrow> status w' = 500
      | None \<Rightarrow> status w' = 200 \<and> writes w' = [])"
  by (auto simp: Send_def Let_def status_http_Error status_new split: option.splits)

lemma resolve_Voice_Inr:
  "resolve_Voice env wd tm m = (Inr m', wd') \<Longrightarrow>
     Text m' = Text m \<and> ImageURL m' = ImageURL m \<and>
     (case Message_Voice tm of
        None \<Rightarrow> m' = m \<and> wd' = wd
      | Some v \<Rightarrow> \<exists>f. bot_GetFile env (resolved wd) (Voice_FileID v) = Inr f \<and>
          resolved wd' = resolved wd @ [Voice_FileID v] \<and>
          m' = m\<lparr>VoiceURL := Link f (bot_Token env), FileExt := filepath_Ext (FilePath f)\<rparr>)"
  by (auto simp: resolve_Voice_def GetFile_def slog_Info_def slog_Error_def
      split: option.splits sum.splits prod.splits)

lemma resolve_Photo_Inr:
  "resolve_Photo env wd tm m = (Inr m', wd') \<Longrightarrow>
     Text m' = Text m \<and> VoiceURL m' = VoiceURL m \<and>
     (case Message_Photo tm of
        None \<Rightarrow> m' = m \<and> wd' = wd
      | Some photo \<Rightarrow> \<exists>p ps f. photo = p # ps \<and>
          bot_GetFile env (resolved wd) (PhotoSize_FileID p) = Inr f \<and>
          m' = m\<lparr>ImageURL := Link f (bot_Token env), FileExt := filepath_Ext (FilePath f)\<rparr>)"
  by (auto simp: resolve_Photo_def GetFile_def slog_Info_def slog_Error_def
      split: option.splits sum.splits prod.splits list.splits)

lemma resolve_Voice_Inl: "resolve_Voice env wd tm m = (Inl stop, wd') \<Longrightarrow> stop = GetFileFailed"
  by (auto simp: resolve_Voice_def GetFile_def split: option.splits sum.splits prod.splits)

lemma resolve_Photo_Inl:
  "resolve_Photo env wd tm m = (Inl stop, wd') \<Longrightarrow> stop = GetFileFailed \<or> stop = Panic"
  by (auto simp: resolve_Photo_def GetFile_def split: option.splits sum.splits prod.splits list.splits)

lemma listen_Enqueued:
  "listen ids names env queue wd update = (Enqueued, queue', wd') \<Longrightarrow>
     \<exists>tm user m1 m wd1 wd2.
       Update_Message update = Some tm \<and> From tm = Some user \<and>
       isAuthorized ids names (Some user) \<and> resolved wd1 = resolved wd \<and>
       resolve_Voice env wd1 tm (new_record user tm) = (Inr m1, wd2) \<and>
       resolve_Photo env wd2 tm m1 = (Inr m, wd') \<and>
       length queue < 100 \<and> queue' = queue @ [m]"
proof -
  assume l: "listen ids names env queue wd update = (Enqueued, queue', wd')"
  then obtain tm where u: "Update_Message update = Some tm"
    by (auto simp: listen_def split: option.splits)
  from l u obtain user where f: "From tm = Some user" and i: "isAuthorized ids names (Some user)"
    by (auto simp: listen_def split: option.splits if_splits)
  let ?wd1 = "slog_Info ''Received a Message'' [(''Message'', StringAttr (Message_Text tm))] wd"
  have r: "resolved ?wd1 = resolved wd" by (simp add: slog_Info_def)
  from l u f i obtain m1 wd2 where v: "resolve_Voice env ?wd1 tm (new_record user tm) = (Inr m1, wd2)"
    by (auto simp: listen_def Let_def split: prod.splits sum.splits dest: resolve_Voice_Inl)
  from l u f i v obtain m where p: "resolve_Photo env wd2 tm m1 = (Inr m, wd')"
    and e: "enqueue queue m = Some queue'"
    by (auto simp: listen_def Let_def split: prod.splits sum.splits option.splits
        dest: resolve_Photo_Inl)
  from e have "length queue < 100 \<and> queue' = queue @ [m]"
    by (auto simp: enqueue_def split: if_splits)
  with u f i r v p show ?thesis by blast
qed

lemma voice_Text_nonempty: "voice_Text i m \<noteq> []" and image_Text_nonempty: "image_Text i m \<noteq> []"
  by (simp_all add: voice_Text_def image_Text_def)



lemma Marshal_Message_nonempty: "Marshal_Message m \<noteq> []"
  by (simp add: Marshal_Message_def)

text \<open>When the first record of a drain cannot be uploaded, nothing was written before and the
  status is 500.\<close>

lemma first_upload_fails:
  "annotate env (slog_Info ''Found Message'' [(''Message'', MessageAttr msg)] wd) msg = (Inl failure, wd') \<Longrightarrow>
     message_handler env (msg # queue) wd new_ResponseWriter =
       (UploadFailed, queue, wd', http_Error new_ResponseWriter failure 500) \<and>
     status (http_Error new_ResponseWriter failure 500) = 500"
  by (simp add: status_http_Error)





text \<open>
  C3 (as amended). A \<^verbatim>\<open>/message\<close> request whose drain reaches the \<^verbatim>\<open>default\<close> branch
  answers 200, and its body is one JSON text per record of the channel, in order (the text
  field rewritten for a record with a locator), always followed by \<^verbatim>\<open>No messages\<close> and a
  newline; on an empty channel the body is that line alone, and, JSON texts never being
  empty, only then.
\<close>

theorem poll_body:
  "message_handler env queue wd new_ResponseWriter = (NoMessages, queue', wd', w') \<Longrightarrow>
     status w' = 200 \<and>
     (\<exists>bs. body w' = concat bs @ ''No messages\<newline>'' \<and>
        list_all2 (\<lambda>m b. \<exists>k. json_Marshal env (m\<lparr>Text :=
            (if VoiceURL m \<noteq> [] then voice_Text (uuid_NewString env k @ FileExt m) m
             else if ImageURL m \<noteq> [] then image_Text (uuid_NewString env k @ FileExt m) m
             else Text m)\<rparr>) = Inr b) queue bs) \<and>
     (queue = [] \<longrightarrow> body w' = ''No messages\<newline>'') \<and>
     ((\<forall>m b. json_Marshal env m = Inr b \<longrightarrow> b \<noteq> []) \<and> body w' = ''No messages\<newline>'' \<longrightarrow>
        queue = [])"
proof -
  assume run: "message_handler env queue wd new_ResponseWriter = (NoMessages, queue', wd', w')"
  from handler_NoMessages[OF run] obtain bs where
    h: "header w' = Some 200" and
    ws: "writes w' = bs @ [''No messages\<newline>'']" and
    la: "list_all2 (\<lambda>m b. \<exists>k. json_Marshal env (m\<lparr>Text :=
            (if VoiceURL m \<noteq> [] then voice_Text (uuid_NewString env k @ FileExt m) m
             else if ImageURL m \<noteq> [] then image_Text (uuid_NewString env k @ FileExt m) m
             else Text m)\<rparr>) = Inr b) queue bs"
    by (auto simp: new_ResponseWriter_def)
  have s: "status w' = 200" using h by (simp add: status_def)
  have b: "body w' = concat bs @ ''No messages\<newline>''" using ws by (simp add: body_def)
  have e: "queue = [] \<longrightarrow> body w' = ''No messages\<newline>''"
    using la b by auto
  have n: "(\<forall>m b. json_Marshal env m = Inr b \<longrightarrow> b \<noteq> []) \<and> body w' = ''No messages\<newline>'' \<longrightarrow>
        queue = []"
  proof (rule impI, rule ccontr)
    assume a: "(\<forall>m b. json_Marshal env m = Inr b \<longrightarrow> b \<noteq> []) \<and> body w' = ''No messages\<newline>''"
    assume "queue \<noteq> []"
    then obtain m ms where "queue = m # ms" by (cases queue) auto
    with la obtain c cs where bs: "bs = c # cs" and
      "\<exists>k. json_Marshal env (m\<lparr>Text :=
            (if VoiceURL m \<noteq> [] then voice_Text (uuid_NewString env k @ FileExt m) m
             else if ImageURL m \<noteq> [] then image_Text (uuid_NewString env k @ FileExt m) m
             else Text m)\<rparr>) = Inr c"
      by (auto simp: list_all2_Cons1)
    with a have "c \<noteq> []" by blast
    with bs have "concat bs \<noteq> []" by simp
    with a b show False by simp
  qed
  from s b la e n show ?thesis by blast
qed

theorem poll_body_witness:
  \<open>(case message_handler example_env [plain_msg, voice_msg] world0 new_ResponseWriter of
      (ex, queue', wd', w') \<Rightarrow>
        ex = NoMessages \<and> status w' = 200 \<and> body w' \<noteq> ''No messages\<newline>'' \<and>
        (\<exists>bs. body w' = concat bs @ ''No messages\<newline>'' \<and> length bs = 2)) \<and>
   (case message_handler example_env [] world0 new_ResponseWriter of
      (ex, queue', wd', w') \<Rightarrow>
        ex = NoMessages \<and> status w' = 200 \<and> body w' = ''No messages\<newline>'')\<close>
proof -
  have ne: "\<forall>m b. json_Marshal example_env m = Inr b \<longrightarrow> b \<noteq> []"
    by (auto simp: example_env_def Marshal_Message_nonempty)
  obtain ex queue' wd' w' where
    run: "message_handler example_env [plain_msg, voice_msg] world0 new_ResponseWriter =
            (ex, queue', wd', w')"
    by (cases "message_handler example_env [plain_msg, voice_msg] world0 new_ResponseWriter")
  have "fst (message_handler example_env [plain_msg, voice_msg] world0 new_ResponseWriter) = NoMessages"
    by code_simp
  with run have ex: "ex = NoMessages" by simp
  note t = poll_body [OF run [unfolded ex]]
  from t obtain bs where
    s: "status w' = 200" and
    b: "body w' = concat bs @ ''No messages\<newline>''" and
    la: "list_all2 (\<lambda>m b. \<exists>k. json_Marshal example_env (m\<lparr>Text :=
            (if VoiceURL m \<noteq> [] then voice_Text (uuid_NewString example_env k @ FileExt m) m
             else if ImageURL m \<noteq> [] then image_Text (uuid_NewString example_env k @ FileExt m) m
             else Text m)\<rparr>) = Inr b) [plain_msg, voice_msg] bs"
    by blast
  from la have len: "length bs = 2" by (auto dest: list_all2_lengthD)
  from t ne have nb: "body w' \<noteq> ''No messages\<newline>''" by blast
  have 1: "case message_handler example_env [plain_msg, voice_msg] world0 new_ResponseWriter of
      (ex, queue', wd', w') \<Rightarrow>
        ex = NoMessages \<and> status w' = 200 \<and> body w' \<noteq> ''No messages\<newline>'' \<and>
        (\<exists>bs. body w' = concat bs @ ''No messages\<newline>'' \<and> length bs = 2)"
    using s b len nb ex unfolding run by auto
  have run0: "message_handler example_env [] world0 new_ResponseWriter =
     (NoMessages, [], world0, Write ''No messages\<newline>'' new_ResponseWriter)"
    by simp
  from poll_body [OF run0]
  have 2: "case message_handler example_env [] world0 new_ResponseWriter of
      (ex, queue', wd', w') \<Rightarrow>
        ex = NoMessages \<and> status w' = 200 \<and> body w' = ''No messages\<newline>''"
    unfolding run0 by simp
  from 1 2 show ?thesis by blast
qed

text \<open>
  The run that refutes C3 as it was stated: one plain record waits, and the body of the
  200 response is its JSON text followed by the \<^verbatim>\<open>No messages\<close> line.
\<close>

theorem poll_body_counterexample:
  \<open>case message_handler example_env [plain_msg] world0 new_ResponseWriter of
     (ex, queue', wd', w') \<Rightarrow>
       ex = NoMessages \<and> status w' = 200 \<and>
       body w' = ''{"user":"Ann Lee (ann)","chatId":"42","msgId":"7","text":"hello"}No messages\<newline>''\<close>
  by code_simp

text \<open>
  C4 (as amended). The handler rewrites the text of a record it has uploaded and nothing
  else: the record handed to \<^verbatim>\<open>json.Marshal\<close> has the voice URL, the image URL and the
  file extension it was received with, next to the rewritten text.
\<close>

theorem poll_keeps_locators:
  "message_handler env queue wd w = (NoMessages, queue', wd', w') \<Longrightarrow>
     \<exists>bs. writes w' = writes w @ bs @ [''No messages\<newline>''] \<and>
       list_all2 (\<lambda>m b. \<exists>m' k.
          json_Marshal env m' = Inr b \<and>
          VoiceURL m' = VoiceURL m \<and> ImageURL m' = ImageURL m \<and> FileExt m' = FileExt m \<and>
          User m' = User m \<and> ChatID m' = ChatID m \<and> MsgID m' = MsgID m \<and>
          Text m' =
            (if VoiceURL m \<noteq> [] then voice_Text (uuid_NewString env k @ FileExt m) m
             else if ImageURL m \<noteq> [] then image_Text (uuid_NewString env k @ FileExt m) m
             else Text m)) queue bs"
proof -
  assume run: "message_handler env queue wd w = (NoMessages, queue', wd', w')"
  from handler_NoMessages[OF run] obtain bs where
    ws: "writes w' = writes w @ bs @ [''No messages\<newline>'']" and
    la: "list_all2 (\<lambda>m b. \<exists>k. json_Marshal env (m\<lparr>Text :=
            (if VoiceURL m \<noteq> [] then voice_Text (uuid_NewString env k @ FileExt m) m
             else if ImageURL m \<noteq> [] then image_Text (uuid_NewString env k @ FileExt m) m
             else Text m)\<rparr>) = Inr b) queue bs"
    by blast
  have "list_all2 (\<lambda>m b. \<exists>m' k.
          json_Marshal env m' = Inr b \<and>
          VoiceURL m' = VoiceURL m \<and> ImageURL m' = ImageURL m \<and> FileExt m' = FileExt m \<and>
          User m' = User m \<and> ChatID m' = ChatID m \<and> MsgID m' = MsgID m \<and>
          Text m' =
            (if VoiceURL m \<noteq> [] then voice_Text (uuid_NewString env k @ FileExt m) m
             else if ImageURL m \<noteq> [] then image_Text (uuid_NewString env k @ FileExt m) m
             else Text m)) queue bs"
  proof (rule list_all2_mono[OF la])
    fix m b
    assume "\<exists>k. json_Marshal env (m\<lparr>Text :=
            (if VoiceURL m \<noteq> [] then voice_Text (uuid_NewString env k @ FileExt m) m
             else if ImageURL m \<noteq> [] then image_Text (uuid_NewString env k @ FileExt m) m
             else Text m)\<rparr>) = Inr b"
    then obtain k where k: "json_Marshal env (m\<lparr>Text :=
            (if VoiceURL m \<noteq> [] then voice_Text (uuid_NewString env k @ FileExt m) m
             else if ImageURL m \<noteq> [] then image_Text (uuid_NewString env k @ FileExt m) m
             else Text m)\<rparr>) = Inr b" ..
    let ?m' = "m\<lparr>Text :=
            (if VoiceURL m \<noteq> [] then voice_Text (uuid_NewString env k @ FileExt m) m
             else if ImageURL m \<noteq> [] then image_Text (uuid_NewString env k @ FileExt m) m
             else Text m)\<rparr>"
    have "json_Marshal env ?m' = Inr b \<and>
          VoiceURL ?m' = VoiceURL m \<and> ImageURL ?m' = ImageURL m \<and> FileExt ?m' = FileExt m \<and>
          User ?m' = User m \<and> ChatID ?m' = ChatID m \<and> MsgID ?m' = MsgID m \<and>
          Text ?m' =
            (if VoiceURL m \<noteq> [] then voice_Text (uuid_NewString env k @ FileExt m) m
             else if ImageURL m \<noteq> [] then image_Text (uuid_NewString env k @ FileExt m) m
             else Text m)"
      using k by simp
    then show "\<exists>m' k.
          json_Marshal env m' = Inr b \<and>
          VoiceURL m' = VoiceURL m \<and> ImageURL m' = ImageURL m \<and> FileExt m' = FileExt m \<and>
          User m' = User m \<and> ChatID m' = ChatID m \<and> MsgID m' = MsgID m \<and>
          Text m' =
            (if VoiceURL m \<noteq> [] then voice_Text (uuid_NewString env k @ FileExt m) m
             else if ImageURL m \<noteq> [] then image_Text (uuid_NewString env k @ FileExt m) m
             else Text m)"
      by blast
  qed
  with ws show ?thesis by blast
qed

theorem poll_keeps_locators_witness:
  \<open>case message_handler example_env [voice_msg] world0 new_ResponseWriter of
     (ex, queue', wd', w') \<Rightarrow>
       ex = NoMessages \<and>
       (\<exists>m' b. writes w' = [b, ''No messages\<newline>''] \<and> json_Marshal example_env m' = Inr b \<and>
          VoiceURL m' = ''https://files.example/v.oga'' \<and> ImageURL m' = [] \<and> FileExt m' = ''.oga'')\<close>
proof -
  obtain ex queue' wd' w' where
    run: "message_handler example_env [voice_msg] world0 new_ResponseWriter = (ex, queue', wd', w')"
    by (cases "message_handler example_env [voice_msg] world0 new_ResponseWriter")
  have "fst (message_handler example_env [voice_msg] world0 new_ResponseWriter) = NoMessages"
    by code_simp
  with run have ex: "ex = NoMessages" by simp
  from poll_keeps_locators [OF run [unfolded ex]] ex show ?thesis
    unfolding run
    by (auto simp: list_all2_Cons1 new_ResponseWriter_def voice_msg_def)
qed

text \<open>
  The run that refutes C4 as it was stated: a voice record is uploaded, and the JSON text
  written still ends with its \<^verbatim>\<open>voiceURL\<close> and \<^verbatim>\<open>fileExt\<close> fields.
\<close>

theorem locators_cleared_counterexample:
  \<open>case message_handler example_env [voice_msg] world0 new_ResponseWriter of
     (ex, queue', wd', w') \<Rightarrow>
       ex = NoMessages \<and> workspace wd' = [(''uuid0.oga'', ''DATA'')] \<and>
       writes w' =
         [Marshal_Message
            \<lparr>User = ''Ann Lee (ann)'', ChatID = ''42'', MsgID = ''8'',
             Text = ''<INFO>This message contains a voice file which you can find in the workspace at uuid0.oga<INFO>\<newline><MESSAGE>{Ann Lee (ann) 42 8 listen https://files.example/v.oga  .oga}</MESSAGE>'',
             VoiceURL = ''https://files.example/v.oga'', ImageURL = [], FileExt = ''.oga''\<rparr>,
          ''No messages\<newline>''] \<and>
       drop (length (hd (writes w')) - 58) (hd (writes w')) =
         ''"voiceURL":"https://files.example/v.oga","fileExt":".oga"}''\<close>
  by code_simp

text \<open>
  C5, at the input where the code departs from it. The server answers 404 with a body;
  \<^verbatim>\<open>http.Get\<close> returns that response and no error, \<^verbatim>\<open>uploadToWs\<close> never looks at the
  status code, writes the body of the error page to the workspace and returns a
  \<^verbatim>\<open>nil\<close> error.
\<close>

theorem upload_404_succeeds:
  "http_Get example_env [] ''https://files.example/gone.oga'' =
     Inr \<lparr>StatusCode = 404, Body = Inr ''Not Found''\<rparr> \<and>
   uploadToWs example_env world0 ''https://files.example/gone.oga'' ''.oga'' =
     ((''uuid0.oga'', None),
      world0\<lparr>uuids := 1, fetched := [''https://files.example/gone.oga''],
             workspace := [(''uuid0.oga'', ''Not Found'')]\<rparr>)"
  by code_simp

text \<open>
  C6. When the voice URL of a record is set and its upload succeeds, the new text is the
  \<^verbatim>\<open>INFO\<close> marker naming a voice file and the identifier under which the file was written
  to the workspace, a newline, and the \<^verbatim>\<open>MESSAGE\<close> marker around the record as
  \<^verbatim>\<open>%s\<close> prints it: the fields between braces, the original text among them.
\<close>

theorem voice_annotation:
  "VoiceURL msg \<noteq> [] \<Longrightarrow> annotate env wd msg = (Inr msg', wd') \<Longrightarrow>
     (\<exists>voiceID content.
        voiceID = uuid_NewString env (uuids wd) @ FileExt msg \<and>
        workspace wd' = workspace wd @ [(voiceID, content)] \<and>
        Text msg' =
          ''<INFO>This message contains a voice file which you can find in the workspace at '' @
          voiceID @ ''<INFO>\<newline>'' @
          ''<MESSAGE>'' @
            (''{'' @ User msg @ '' '' @ ChatID msg @ '' '' @ MsgID msg @ '' '' @ Text msg @ '' '' @
             VoiceURL msg @ '' '' @ ImageURL msg @ '' '' @ FileExt msg @ ''}'') @
          ''</MESSAGE>'')"
  by (auto simp: annotate_def voice_Text_def Sprint_Message_def
      split: prod.splits option.splits dest: uploadToWs_path uploadToWs_workspace)

theorem voice_annotation_witness:
  "VoiceURL voice_msg \<noteq> [] \<and> ImageURL voice_msg = [] \<and>
   (case annotate example_env world0 voice_msg of
      (r, wd') \<Rightarrow>
        workspace wd' = [(''uuid0.oga'', ''DATA'')] \<and>
        map_sum id Text r = Inr
          ''<INFO>This message contains a voice file which you can find in the workspace at uuid0.oga<INFO>\<newline><MESSAGE>{Ann Lee (ann) 42 8 listen https://files.example/v.oga  .oga}</MESSAGE>'')"
proof -
  have v: "VoiceURL voice_msg \<noteq> []" by (simp add: voice_msg_def)
  have i: "ImageURL voice_msg = []" by (simp add: voice_msg_def)
  obtain r wd' where a: "annotate example_env world0 voice_msg = (r, wd')"
    by (cases "annotate example_env world0 voice_msg")
  have "isl (fst (annotate example_env world0 voice_msg)) = False" by code_simp
  with a obtain msg' where r: "r = Inr msg'" by (cases r) auto
  have u: "uuid_NewString example_env (uuids world0) = ''uuid0''" by code_simp
  have w: "workspace world0 = []" by (simp add: world0_def)
  have "workspace (snd (annotate example_env world0 voice_msg)) = [(''uuid0.oga'', ''DATA'')]"
    by code_simp
  with a have c: "workspace wd' = [(''uuid0.oga'', ''DATA'')]" by simp
  from voice_annotation [OF v a [unfolded r]] u
  have "Text msg' =
    ''<INFO>This message contains a voice file which you can find in the workspace at uuid0.oga<INFO>\<newline><MESSAGE>{Ann Lee (ann) 42 8 listen https://files.example/v.oga  .oga}</MESSAGE>''"
    by (simp add: voice_msg_def)
  with v i c show ?thesis unfolding a r by simp
qed

text \<open>
  C7, at the input where the code departs from it. A plain record is written first, which
  sends status 200; the upload of the next record fails, and \<^verbatim>\<open>http.Error\<close> can only
  append its text to the body. The failing record is gone, the record behind it is still
  in the channel.
\<close>

theorem failed_drain_status:
  \<open>case message_handler example_env [plain_msg, down_msg, plain_msg] world0 new_ResponseWriter of
     (ex, queue', wd', w') \<Rightarrow>
       ex = UploadFailed \<and> status w' = 200 \<and> queue' = [plain_msg] \<and>
       body w' = ''{"user":"Ann Lee (ann)","chatId":"42","msgId":"7","text":"hello"}Failed to upload voice file\<newline>''\<close>
  by code_simp

text \<open>
  C8. A \<^verbatim>\<open>/send\<close> request whose body cannot be read or is not JSON, whose \<^verbatim>\<open>chatId\<close> is
  not a decimal 64-bit integer, or whose \<^verbatim>\<open>msgId\<close> is present, not empty and not a decimal
  integer, is answered 400 and \<^verbatim>\<open>bot.Send\<close> is not called. Otherwise \<^verbatim>\<open>bot.Send\<close> is
  called exactly once, with the parsed chat id, the text, and \<^verbatim>\<open>ReplyToMessageID\<close> set to
  the parsed \<^verbatim>\<open>msgId\<close> when one was supplied and left at zero (no reply) when none was;
  the answer is 500 when that call fails and 200 with an empty body when it succeeds.
\<close>

theorem send_handler_spec:
  "(r_Body = Inl err \<or> r_Body = Inr bodyBytes \<and> json_Unmarshal env bodyBytes = Inl err \<longrightarrow>
      (case send_handler env wd r_Body new_ResponseWriter of
         (wd', w') \<Rightarrow> status w' = 400 \<and> sent wd' = sent wd)) \<and>
   (json_Unmarshal env bodyBytes = Inr req \<and> ParseInt (ChatID req) 64 = Inl e1 \<longrightarrow>
      (case send_handler env wd (Inr bodyBytes) new_ResponseWriter of
         (wd', w') \<Rightarrow> status w' = 400 \<and> sent wd' = sent wd)) \<and>
   (json_Unmarshal env bodyBytes = Inr req \<and> ParseInt (ChatID req) 64 = Inr chatID \<and>
    MsgID req \<noteq> [] \<and> Atoi (MsgID req) = Inl e2 \<longrightarrow>
      (case send_handler env wd (Inr bodyBytes) new_ResponseWriter of
         (wd', w') \<Rightarrow> status w' = 400 \<and> sent wd' = sent wd)) \<and>
   (json_Unmarshal env bodyBytes = Inr req \<and> ParseInt (ChatID req) 64 = Inr chatID \<and>
    (MsgID req \<noteq> [] \<longrightarrow> Atoi (MsgID req) = Inr msgID) \<longrightarrow>
      (let msg = \<lparr>BaseChat_ChatID = word_of_int chatID, MessageConfig_Text = Text req,
                   ReplyToMessageID = (if MsgID req = [] then 0 else word_of_int msgID)\<rparr>
       in case send_handler env wd (Inr bodyBytes) new_ResponseWriter of
            (wd', w') \<Rightarrow>
              sent wd' = sent wd @ [msg] \<and>
              (case bot_Send env (sent wd) msg of
                 Some err \<Rightarrow> status w' = 500
               | None \<Rightarrow> status w' = 200 \<and> writes w' = [])))"
proof (intro conjI impI)
  assume "r_Body = Inl err \<or> r_Body = Inr bodyBytes \<and> json_Unmarshal env bodyBytes = Inl err"
  then show "case send_handler env wd r_Body new_ResponseWriter of
         (wd', w') \<Rightarrow> status w' = 400 \<and> sent wd' = sent wd"
    by (auto simp: send_handler_def status_http_Error sent_slog_Error)
next
  assume "json_Unmarshal env bodyBytes = Inr req \<and> ParseInt (ChatID req) 64 = Inl e1"
  then show "case send_handler env wd (Inr bodyBytes) new_ResponseWriter of
         (wd', w') \<Rightarrow> status w' = 400 \<and> sent wd' = sent wd"
    by (simp add: send_handler_def status_http_Error sent_slog_Error)
next
  assume "json_Unmarshal env bodyBytes = Inr req \<and> ParseInt (ChatID req) 64 = Inr chatID \<and>
    MsgID req \<noteq> [] \<and> Atoi (MsgID req) = Inl e2"
  then show "case send_handler env wd (Inr bodyBytes) new_ResponseWriter of
         (wd', w') \<Rightarrow> status w' = 400 \<and> sent wd' = sent wd"
    by (simp add: send_handler_def status_http_Error sent_slog_Error)
next
  let ?msg = "\<lparr>BaseChat_ChatID = word_of_int chatID, MessageConfig_Text = Text req,
                ReplyToMessageID = (if MsgID req = [] then 0 else word_of_int msgID)\<rparr>"
  assume a: "json_Unmarshal env bodyBytes = Inr req \<and> ParseInt (ChatID req) 64 = Inr chatID \<and>
    (MsgID req \<noteq> [] \<longrightarrow> Atoi (MsgID req) = Inr msgID)"
  then have "send_handler env wd (Inr bodyBytes) new_ResponseWriter = Send env wd ?msg new_ResponseWriter"
    by (simp add: send_handler_def NewMessage_def)
  moreover obtain wd' w' where s: "Send env wd ?msg new_ResponseWriter = (wd', w')"
    by (cases "Send env wd ?msg new_ResponseWriter")
  ultimately show "let msg = ?msg
       in case send_handler env wd (Inr bodyBytes) new_ResponseWriter of
            (wd', w') \<Rightarrow>
              sent wd' = sent wd @ [msg] \<and>
              (case bot_Send env (sent wd) msg of
                 Some err \<Rightarrow> status w' = 500
               | None \<Rightarrow> status w' = 200 \<and> writes w' = [])"
    using Send_result[OF s] by (simp add: Let_def)
qed

theorem send_handler_spec_witness:
  \<open>(case send_handler example_env world0 (Inr ''{"chatId":"abc","text":"hi"}'') new_ResponseWriter of
      (wd', w') \<Rightarrow> status w' = 400 \<and> sent wd' = []) \<and>
   (case send_handler example_env world0 (Inr ''not json'') new_ResponseWriter of
      (wd', w') \<Rightarrow> status w' = 400 \<and> sent wd' = []) \<and>
   (case send_handler example_env world0 (Inr ''{"chatId":"123","text":"hi","msgId":"x"}'') new_ResponseWriter of
      (wd', w') \<Rightarrow> status w' = 400 \<and> sent wd' = []) \<and>
   (case send_handler example_env world0 (Inr ''{"chatId":"123","text":"hi"}'') new_ResponseWriter of
      (wd', w') \<Rightarrow> status w' = 200 \<and> writes w' = [] \<and>
        sent wd' = [\<lparr>BaseChat_ChatID = 123, MessageConfig_Text = ''hi'', ReplyToMessageID = 0\<rparr>]) \<and>
   (case send_handler example_env world0 (Inr ''{"chatId":"123","text":"hi","msgId":"7"}'') new_ResponseWriter of
      (wd', w') \<Rightarrow> status w' = 200 \<and> writes w' = [] \<and>
        sent wd' = [\<lparr>BaseChat_ChatID = 123, MessageConfig_Text = ''hi'', ReplyToMessageID = 7\<rparr>]) \<and>
   (case send_handler (example_env\<lparr>bot_Send := \<lambda>history msg. Some (Err ''Forbidden'')\<rparr>) world0
           (Inr ''{"chatId":"123","text":"hi"}'') new_ResponseWriter of
      (wd', w') \<Rightarrow> status w' = 500 \<and>
        sent wd' = [\<lparr>BaseChat_ChatID = 123, MessageConfig_Text = ''hi'', ReplyToMessageID = 0\<rparr>])\<close>
proof -
  let ?abc = \<open>''{"chatId":"abc","text":"hi"}''\<close>
  let ?ok = \<open>''{"chatId":"123","text":"hi"}''\<close>
  let ?x = \<open>''{"chatId":"123","text":"hi","msgId":"x"}''\<close>
  let ?r7 = \<open>''{"chatId":"123","text":"hi","msgId":"7"}''\<close>
  let ?req = "\<lambda>c m. \<lparr>User = [], ChatID = c, MsgID = m, Text = ''hi'',
                VoiceURL = [], ImageURL = [], FileExt = []\<rparr>"
  let ?down = "example_env\<lparr>bot_Send := \<lambda>history msg. Some (Err ''Forbidden'')\<rparr>"
  have s0: "sent world0 = []" by (simp add: world0_def)
  have u_abc: "json_Unmarshal example_env ?abc = Inr (?req ''abc'' [])" by code_simp
  have u_bad: "json_Unmarshal example_env ''not json'' = Inl (Err ''invalid character'')" by code_simp
  have u_x: "json_Unmarshal example_env ?x = Inr (?req ''123'' ''x'')" by code_simp
  have u_ok: "json_Unmarshal example_env ?ok = Inr (?req ''123'' [])" by code_simp
  have u_7: "json_Unmarshal example_env ?r7 = Inr (?req ''123'' ''7'')" by code_simp
  have u_ok': "json_Unmarshal ?down ?ok = Inr (?req ''123'' [])" by code_simp
  have p_abc: "ParseInt ''abc'' 64 = Inl ErrSyntax" by code_simp
  have p_123: "ParseInt ''123'' 64 = Inr 123" by code_simp
  have a_x: "Atoi ''x'' = Inl ErrSyntax" by code_simp
  have a_7: "Atoi ''7'' = Inr 7" by code_simp
  have b_ok: "\<And>h m. bot_Send example_env h m = None" by (simp add: example_env_def)
  have b_down: "\<And>h m. bot_Send ?down h m = Some (Err ''Forbidden'')" by simp
  note t = send_handler_spec
  have 1: "case send_handler example_env world0 (Inr ?abc) new_ResponseWriter of
      (wd', w') \<Rightarrow> status w' = 400 \<and> sent wd' = []"
    using t [where bodyBytes = ?abc and env = example_env and req = "?req ''abc'' []"
               and ?e1.0 = ErrSyntax and wd = world0, THEN conjunct2, THEN conjunct1]
      u_abc p_abc s0 by simp
  have 2: "case send_handler example_env world0 (Inr ''not json'') new_ResponseWriter of
      (wd', w') \<Rightarrow> status w' = 400 \<and> sent wd' = []"
    using t [where r_Body = "Inr ''not json''" and err = "Err ''invalid character''"
               and bodyBytes = "''not json''" and env = example_env and wd = world0, THEN conjunct1]
      u_bad s0 by simp
  have 3: "case send_handler example_env world0 (Inr ?x) new_ResponseWriter of
      (wd', w') \<Rightarrow> status w' = 400 \<and> sent wd' = []"
    using t [where bodyBytes = ?x and env = example_env and req = "?req ''123'' ''x''"
               and chatID = 123 and ?e2.0 = ErrSyntax and wd = world0,
               THEN conjunct2, THEN conjunct2, THEN conjunct1]
      u_x p_123 a_x s0 by simp
  have 4: "case send_handler example_env world0 (Inr ?ok) new_ResponseWriter of
      (wd', w') \<Rightarrow> status w' = 200 \<and> writes w' = [] \<and>
        sent wd' = [\<lparr>BaseChat_ChatID = 123, MessageConfig_Text = ''hi'', ReplyToMessageID = 0\<rparr>]"
    using t [where bodyBytes = ?ok and env = example_env and req = "?req ''123'' []"
               and chatID = 123 and msgID = 0 and wd = world0,
               THEN conjunct2, THEN conjunct2, THEN conjunct2]
      u_ok p_123 s0 b_ok
    by (auto simp: Let_def)
  have 5: "case send_handler example_env world0 (Inr ?r7) new_ResponseWriter of
      (wd', w') \<Rightarrow> status w' = 200 \<and> writes w' = [] \<and>
        sent wd' = [\<lparr>BaseChat_ChatID = 123, MessageConfig_Text = ''hi'', ReplyToMessageID = 7\<rparr>]"
    using t [where bodyBytes = ?r7 and env = example_env and req = "?req ''123'' ''7''"
               and chatID = 123 and msgID = 7 and wd = world0,
               THEN conjunct2, THEN conjunct2, THEN conjunct2]
      u_7 p_123 a_7 s0 b_ok
    by (auto simp: Let_def)
  have 6: "case send_handler ?down world0 (Inr ?ok) new_ResponseWriter of
      (wd', w') \<Rightarrow> status w' = 500 \<and>
        sent wd' = [\<lparr>BaseChat_ChatID = 123, MessageConfig_Text = ''hi'', ReplyToMessageID = 0\<rparr>]"
    using t [where bodyBytes = ?ok and env = ?down and req = "?req ''123'' []"
               and chatID = 123 and msgID = 0 and wd = world0,
               THEN conjunct2, THEN conjunct2, THEN conjunct2]
      u_ok' p_123 s0 b_down
    by (auto simp: Let_def)
  from 1 2 3 4 5 6 show ?thesis by blast
qed

text \<open>
  C9 (as amended). The update loop puts the text of the Telegram message on the record
  unchanged, empty or not. The \<^verbatim>\<open>/message\<close> handler writes a new, non-empty text for a
  record that has a voice or image URL and leaves the text of any other record as it is.
\<close>

theorem text_after_relay:
  "(listen ids names env queue wd update = (Enqueued, queue', wd') \<longrightarrow>
      (\<exists>tm m. Update_Message update = Some tm \<and> queue' = queue @ [m] \<and> Text m = Message_Text tm)) \<and>
   (annotate env wd2 msg = (Inr msg', wd3) \<longrightarrow>
      (if VoiceURL msg \<noteq> [] \<or> ImageURL msg \<noteq> [] then Text msg' \<noteq> [] else Text msg' = Text msg))"
proof (intro conjI impI)
  assume "listen ids names env queue wd update = (Enqueued, queue', wd')"
  from listen_Enqueued[OF this] obtain tm user m1 m wd1 wd2 where
    u: "Update_Message update = Some tm" and
    v: "resolve_Voice env wd1 tm (new_record user tm) = (Inr m1, wd2)" and
    p: "resolve_Photo env wd2 tm m1 = (Inr m, wd')" and
    q: "queue' = queue @ [m]"
    by blast
  from resolve_Voice_Inr[OF v] resolve_Photo_Inr[OF p]
  have "Text m = Message_Text tm" by (simp add: new_record_def)
  with u q show "\<exists>tm m. Update_Message update = Some tm \<and> queue' = queue @ [m] \<and> Text m = Message_Text tm"
    by blast
next
  assume "annotate env wd2 msg = (Inr msg', wd3)"
  from annotate_Inr[OF this]
  show "if VoiceURL msg \<noteq> [] \<or> ImageURL msg \<noteq> [] then Text msg' \<noteq> [] else Text msg' = Text msg"
    by (auto simp: voice_Text_nonempty image_Text_nonempty)
qed

theorem text_after_relay_witness:
  "(\<exists>m. fst (snd (listen {1001} {} example_env [] world0 sticker_update)) = [m] \<and> Text m = []) \<and>
   (\<exists>msg'. fst (annotate example_env world0 voice_msg) = Inr msg' \<and> Text msg' \<noteq> []) \<and>
   (\<exists>msg'. fst (annotate example_env world0 plain_msg) = Inr msg' \<and> Text msg' = ''hello'')"
proof -
  let ?tm = "\<lparr>From = Some ann, Chat_ID = 42, MessageID = 7, Message_Text = [],
              Message_Voice = None, Message_Photo = None\<rparr>"
  obtain queue' wd' where l: "listen {1001} {} example_env [] world0 sticker_update = (Enqueued, queue', wd')"
  proof -
    have "fst (listen {1001} {} example_env [] world0 sticker_update) = Enqueued" by code_simp
    then show ?thesis using that
      by (cases "listen {1001} {} example_env [] world0 sticker_update") auto
  qed
  have u: "Update_Message sticker_update = Some ?tm" by (simp add: sticker_update_def)
  from text_after_relay [THEN conjunct1, rule_format, OF l] u
  have 1: "\<exists>m. fst (snd (listen {1001} {} example_env [] world0 sticker_update)) = [m] \<and> Text m = []"
    unfolding l by auto
  obtain r wd3 where a: "annotate example_env world0 voice_msg = (r, wd3)"
    by (cases "annotate example_env world0 voice_msg")
  have "isl (fst (annotate example_env world0 voice_msg)) = False" by code_simp
  with a obtain msg' where r: "r = Inr msg'" by (cases r) auto
  from text_after_relay [THEN conjunct2, rule_format, OF a [unfolded r]]
  have 2: "\<exists>msg'. fst (annotate example_env world0 voice_msg) = Inr msg' \<and> Text msg' \<noteq> []"
    unfolding a r by (simp add: voice_msg_def)
  have b: "annotate example_env world0 plain_msg = (Inr plain_msg, world0)"
    by (simp add: annotate_def plain_msg_def)
  from text_after_relay [THEN conjunct2, rule_format, OF b]
  have 3: "\<exists>msg'. fst (annotate example_env world0 plain_msg) = Inr msg' \<and> Text msg' = ''hello''"
    unfolding b by (simp add: plain_msg_def)
  from 1 2 3 show ?thesis by blast
qed

text \<open>
  The run that refutes C9 as it was stated: an allowed sender's message with no text, no
  voice and no photo is put on the channel with an empty text and leaves through
  \<^verbatim>\<open>/message\<close> with \<^verbatim>\<open>"text":""\<close>.
\<close>

theorem empty_text_counterexample:
  \<open>case listen {1001} {} example_env [] world0 sticker_update of
     (st, queue, wd) \<Rightarrow>
       st = Enqueued \<and> map Text queue = [[]] \<and>
       (case message_handler example_env queue wd new_ResponseWriter of
          (ex, queue', wd', w') \<Rightarrow>
            ex = NoMessages \<and>
            body w' = ''{"user":"Ann Lee (ann)","chatId":"42","msgId":"7","text":""}No messages\<newline>'')\<close>
  by code_simp



end
